theory Spec2Isabelle
  imports Complex_Main
begin

section \<open>Numbers\<close>

text \<open>
  A JavaScript number is modelled as an exact real number or \<open>NaN\<close>. The rounding of IEEE
  doubles and the two infinities are outside the model: every formula below is read
  in exact arithmetic. \<open>parseFloat\<close> and \<open>parseInt\<close> belong to the platform; a form
  field is represented by the number they return on its text, \<open>NaN\<close> for a text that
  does not start with a number (such as "abc" or the empty text).
\<close>

datatype jsnum = NaN | Num real

fun Math_max :: "jsnum \<Rightarrow> jsnum \<Rightarrow> jsnum" where
  "Math_max (Num x) (Num y) = Num (max x y)"
| "Math_max _ _ = NaN"

fun Math_min :: "jsnum \<Rightarrow> jsnum \<Rightarrow> jsnum" where
  "Math_min (Num x) (Num y) = Num (min x y)"
| "Math_min _ _ = NaN"

text \<open>\<open>Math.round\<close> rounds to the nearest integer, halves towards plus infinity.\<close>

fun Math_round :: "jsnum \<Rightarrow> jsnum" where
  "Math_round (Num x) = Num (of_int \<lfloor>x + 1 / 2\<rfloor>)"
| "Math_round NaN = NaN"

fun mul :: "jsnum \<Rightarrow> jsnum \<Rightarrow> jsnum" where
  "mul (Num x) (Num y) = Num (x * y)"
| "mul _ _ = NaN"

fun sub :: "jsnum \<Rightarrow> jsnum \<Rightarrow> jsnum" where
  "sub (Num x) (Num y) = Num (x - y)"
| "sub _ _ = NaN"

text \<open>
  Division by zero gives an infinity or \<open>NaN\<close> in JavaScript. The model has no
  infinity and answers \<open>NaN\<close>; the divisors of the program are the constants 100 and
  1000 and the vehicle count, which every assignment makes a non-zero number.
\<close>

fun divide_js :: "jsnum \<Rightarrow> jsnum \<Rightarrow> jsnum" where
  "divide_js (Num x) (Num y) = (if y = 0 then NaN else Num (x / y))"
| "divide_js _ _ = NaN"

text \<open>The numbers that count as false in a condition, and \<open>a || d\<close> on numbers.\<close>

fun falsy :: "jsnum \<Rightarrow> bool" where
  "falsy NaN = True"
| "falsy (Num x) = (x = 0)"

definition or_else :: "jsnum \<Rightarrow> jsnum \<Rightarrow> jsnum" where
  "or_else a d = (if falsy a then d else a)"

text \<open>
  \<open>const clamp = (v, min, max) => Math.min(max, Math.max(min, v))\<close>, the same in
  the bundle and as a method of \<open>TecCalculator\<close>.
\<close>

definition clamp :: "jsnum \<Rightarrow> jsnum \<Rightarrow> jsnum \<Rightarrow> jsnum" where
  "clamp v lo hi = Math_min hi (Math_max lo v)"

section \<open>Constants\<close>

definition TEC_COST :: jsnum where "TEC_COST = Num 0.0463"
definition CO2_LITER :: jsnum where "CO2_LITER = Num 2.65"
definition MAX_OUT :: jsnum where "MAX_OUT = Num 999999999999"

text \<open>\<open>LIMITS\<close>: each entry is the pair \<open>[min, max]\<close>.\<close>

definition LIMITS_km :: "jsnum \<times> jsnum" where "LIMITS_km = (Num 1000, Num 300000)"
definition LIMITS_cons :: "jsnum \<times> jsnum" where "LIMITS_cons = (Num 1, Num 150)"
definition LIMITS_vehicles :: "jsnum \<times> jsnum" where "LIMITS_vehicles = (Num 1, Num 1000)"
definition LIMITS_heating :: "jsnum \<times> jsnum" where "LIMITS_heating = (Num 500, Num 500000)"
definition LIMITS_price :: "jsnum \<times> jsnum" where "LIMITS_price = (Num 0.5, Num 5)"
definition LIMITS_savings :: "jsnum \<times> jsnum" where "LIMITS_savings = (Num 1, Num 25)"

section \<open>The form fields\<close>

text \<open>
  The value of the consumption select is the text "custom" or the text of a preset,
  which \<open>calculateDiesel\<close> hands to \<open>parseFloat\<close>.
\<close>

datatype selection = Custom | Preset jsnum

text \<open>What \<open>parseFloat\<close> returns on each field the vehicle calculation reads.\<close>

record diesel_fields =
  km_input :: jsnum
  diesel_price :: jsnum
  consumption :: selection
  custom_consumption :: jsnum
  savings_slider :: jsnum

record heating_fields =
  heating_input :: jsnum
  heating_price :: jsnum
  heating_savings_slider :: jsnum

section \<open>The bundled calculator\<close>

text \<open>The module variables \<open>currentTab\<close>, \<open>vehicles\<close> and \<open>currentLang\<close>.\<close>

datatype tab = Diesel | Heating

record module_state =
  currentTab :: tab
  vehicles :: jsnum
  currentLang :: string

definition initial_state :: module_state where
  "initial_state = \<lparr>currentTab = Diesel, vehicles = Num 5, currentLang = ''de''\<rparr>"

text \<open>The local constants of \<open>calculateDiesel\<close>, in the order they are computed.\<close>

record diesel_result =
  d_km :: jsnum
  d_price :: jsnum
  d_cons :: jsnum
  d_savePct :: jsnum
  d_litersPerVehicle :: jsnum
  d_totalLiters :: jsnum
  d_litersSaved :: jsnum
  d_gross :: jsnum
  d_tecCost :: jsnum
  d_net :: jsnum
  d_co2 :: jsnum
  d_perVehicle :: jsnum
  d_costWithout :: jsnum
  d_costWith :: jsnum

text \<open>
  The formulas of the vehicle mode, from the four clamped inputs and the vehicle
  count; \<open>calculateDiesel\<close> and \<open>TecCalculator.calcDiesel\<close> differ only in how the
  price is read.
\<close>

definition diesel_formulas :: "jsnum \<Rightarrow> jsnum \<Rightarrow> jsnum \<Rightarrow> jsnum \<Rightarrow> jsnum \<Rightarrow> diesel_result" where
  "diesel_formulas km price cons savePct vehicleCount =
     (let litersPerVehicle = mul (divide_js km (Num 100)) cons;
          totalLiters = mul litersPerVehicle vehicleCount;
          litersSaved = mul totalLiters (divide_js savePct (Num 100));
          gross = mul litersSaved price;
          tecCost = mul totalLiters TEC_COST;
          net = Math_max (Num 0) (sub gross tecCost);
          co2 = mul litersSaved (divide_js CO2_LITER (Num 1000));
          perVehicle = Math_max (Num 0) (divide_js net vehicleCount);
          costWithout = mul totalLiters price;
          costWith = sub costWithout net
      in \<lparr>d_km = km, d_price = price, d_cons = cons, d_savePct = savePct,
          d_litersPerVehicle = litersPerVehicle, d_totalLiters = totalLiters,
          d_litersSaved = litersSaved, d_gross = gross, d_tecCost = tecCost,
          d_net = net, d_co2 = co2, d_perVehicle = perVehicle,
          d_costWithout = costWithout, d_costWith = costWith\<rparr>)"

definition read_cons :: "diesel_fields \<Rightarrow> jsnum" where
  "read_cons f =
     (let cons = (case consumption f of
                    Custom \<Rightarrow> or_else (custom_consumption f) (Num 32)
                  | Preset p \<Rightarrow> p)
      in clamp cons (fst LIMITS_cons) (snd LIMITS_cons))"

definition calculateDiesel :: "module_state \<Rightarrow> diesel_fields \<Rightarrow> diesel_result" where
  "calculateDiesel st f =
     (let km = clamp (or_else (km_input f) (Num 80000)) (fst LIMITS_km) (snd LIMITS_km);
          price = clamp (or_else (diesel_price f) (Num 1.95)) (fst LIMITS_price) (snd LIMITS_price);
          cons = read_cons f;
          savePct = clamp (or_else (savings_slider f) (Num 7)) (fst LIMITS_savings) (snd LIMITS_savings)
      in diesel_formulas km price cons savePct (vehicles st))"

text \<open>The local constants of \<open>calculateHeating\<close>.\<close>

record heating_result =
  h_liters :: jsnum
  h_price :: jsnum
  h_savePct :: jsnum
  h_litersSaved :: jsnum
  h_gross :: jsnum
  h_tecCost :: jsnum
  h_net :: jsnum
  h_co2 :: jsnum
  h_costWithout :: jsnum
  h_costWith :: jsnum

definition heating_formulas :: "jsnum \<Rightarrow> jsnum \<Rightarrow> jsnum \<Rightarrow> heating_result" where
  "heating_formulas liters price savePct =
     (let litersSaved = mul liters (divide_js savePct (Num 100));
          gross = mul litersSaved price;
          tecCost = mul liters TEC_COST;
          net = Math_max (Num 0) (sub gross tecCost);
          co2 = mul litersSaved (divide_js CO2_LITER (Num 1000));
          costWithout = mul liters price;
          costWith = sub costWithout net
      in \<lparr>h_liters = liters, h_price = price, h_savePct = savePct,
          h_litersSaved = litersSaved, h_gross = gross, h_tecCost = tecCost,
          h_net = net, h_co2 = co2, h_costWithout = costWithout, h_costWith = costWith\<rparr>)"

definition calculateHeating :: "heating_fields \<Rightarrow> heating_result" where
  "calculateHeating f =
     (let liters = clamp (or_else (heating_input f) (Num 8000)) (fst LIMITS_heating) (snd LIMITS_heating);
          price = clamp (or_else (heating_price f) (Num 1.35)) (fst LIMITS_price) (snd LIMITS_price);
          savePct = clamp (or_else (heating_savings_slider f) (Num 7)) (fst LIMITS_savings) (snd LIMITS_savings)
      in heating_formulas liters price savePct)"

section \<open>Locale detection\<close>

text \<open>
  Texts are byte lists in UTF-8. \<open>String.split('.')\<close>: the pieces between the dots,
  one piece (the whole text) when there is no dot.
\<close>

fun split_on :: "char \<Rightarrow> string \<Rightarrow> string list" where
  "split_on c [] = [[]]"
| "split_on c (x # xs) =
     (if x = c then [] # split_on c xs
      else (case split_on c xs of p # ps \<Rightarrow> (x # p) # ps | [] \<Rightarrow> [[x]]))"

text \<open>
  \<open>toLowerCase\<close> on the letters A to Z; a host name has no other upper-case letter
  (the URL standard keeps it in ASCII).
\<close>

definition to_lower :: "char \<Rightarrow> char" where
  "to_lower c =
     (if 65 \<le> (of_char c :: nat) \<and> (of_char c :: nat) \<le> 90
      then char_of ((of_char c :: nat) + 32) else c)"

definition toLowerCase :: "string \<Rightarrow> string" where
  "toLowerCase s = map to_lower s"

record prices =
  diesel :: jsnum
  heating :: jsnum

text \<open>The table \<open>defaultPrices\<close> of the locale module, and its entry \<open>CH\<close>.\<close>

definition defaultPrices_CH :: prices where
  "defaultPrices_CH = \<lparr>diesel = Num 1.95, heating = Num 1.35\<rparr>"

definition defaultPrices :: "string \<Rightarrow> prices option" where
  "defaultPrices c =
     (if c = ''CH'' then Some defaultPrices_CH
      else if c = ''AT'' then Some \<lparr>diesel = Num 1.55, heating = Num 1.10\<rparr>
      else if c = ''DE'' then Some \<lparr>diesel = Num 1.65, heating = Num 1.05\<rparr>
      else if c = ''FR'' then Some \<lparr>diesel = Num 1.75, heating = Num 1.15\<rparr>
      else if c = ''IT'' then Some \<lparr>diesel = Num 1.80, heating = Num 1.20\<rparr>
      else None)"

record locale_info =
  lang :: string
  country :: string
  currency :: string
  prices :: prices

text \<open>\<open>detectLocale\<close>, as a function of \<open>window.location.hostname\<close>.\<close>

definition detectLocale :: "string \<Rightarrow> locale_info" where
  "detectLocale hostname =
     (let host = toLowerCase hostname;
          parts = split_on (CHR ''.'') host;
          subdomain = (if length parts > 2 then Some (hd parts) else None);
          tld = last parts;
          by_tld = (if tld = ''fr'' then ''fr'' else if tld = ''it'' then ''it'' else ''de'');
          lang = (case subdomain of
                    Some s \<Rightarrow> if s \<noteq> [] \<and> s \<in> set [''en'', ''fr'', ''it''] then s else by_tld
                  | None \<Rightarrow> by_tld);
          country = (if tld = ''at'' then ''AT''
                     else if tld = ''de'' then ''DE''
                     else if tld = ''fr'' then ''FR''
                     else if tld = ''it'' then ''IT''
                     else ''CH'');
          currency = (if country = ''CH'' then ''CHF'' else ''EUR'');
          prices = (case defaultPrices country of
                      Some p \<Rightarrow> p
                    | None \<Rightarrow> defaultPrices_CH)
      in \<lparr>lang = lang, country = country, currency = currency, prices = prices\<rparr>)"

text \<open>
  \<open>detectLanguage\<close> of the bundle: the \<open>lang\<close> parameter of the URL when it names a
  supported language, else the first language of \<open>URL_PATTERNS\<close> one of whose
  patterns matches the host name, else German. Each pattern is anchored at both ends,
  so it matches exactly the listed host names.
\<close>

definition SUPPORTED_LANGS :: "string list" where
  "SUPPORTED_LANGS = [''de'', ''en'', ''fr'', ''it'']"

definition URL_PATTERNS :: "(string \<times> string list) list" where
  "URL_PATTERNS =
     [(''de'', [''tecblu.ch'', ''tecblu.at'', ''tecblu.de'']),
      (''en'', [''en.tecblu.ch'', ''en.tecblu.at'', ''en.tecblu.de'', ''en.tecblu.fr'',
                ''en.tecblu.it'']),
      (''fr'', [''fr.tecblu.ch'', ''tecblu.fr'']),
      (''it'', [''it.tecblu.ch'', ''tecblu.it''])]"

definition detectLanguage :: "string option \<Rightarrow> string \<Rightarrow> string" where
  "detectLanguage langParam hostname =
     (case langParam of
        Some l \<Rightarrow>
          if l \<noteq> [] \<and> l \<in> set SUPPORTED_LANGS then l
          else (case find (\<lambda>(l, hosts). hostname \<in> set hosts) URL_PATTERNS of
                  Some (l, hosts) \<Rightarrow> l | None \<Rightarrow> ''de'')
      | None \<Rightarrow>
          (case find (\<lambda>(l, hosts). hostname \<in> set hosts) URL_PATTERNS of
             Some (l, hosts) \<Rightarrow> l | None \<Rightarrow> ''de''))"

section \<open>Formatting\<close>

text \<open>
  \<open>Intl.NumberFormat(locale, {minimumFractionDigits: d, maximumFractionDigits: d}).format\<close>
  belongs to the platform. The helpers take it as the parameter \<open>nf\<close>, a function of
  the locale tag, the number of fraction digits and the value.
\<close>

type_synonym number_format = "string \<Rightarrow> nat \<Rightarrow> jsnum \<Rightarrow> string"

text \<open>The marker after the point: the en dash U+2013, three bytes in UTF-8.\<close>

definition en_dash :: string where
  "en_dash = [CHR 0xE2, CHR 0x80, CHR 0x93]"

text \<open>The euro sign U+20AC.\<close>

definition euro_sign :: string where
  "euro_sign = [CHR 0xE2, CHR 0x82, CHR 0xAC]"

definition localeMap :: "string \<Rightarrow> string" where
  "localeMap l =
     (if l = ''de'' then ''de-CH''
      else if l = ''en'' then ''en-CH''
      else if l = ''fr'' then ''fr-CH''
      else if l = ''it'' then ''it-CH''
      else ''de-CH'')"

text \<open>\<open>formatCurrency\<close> and \<open>formatNumber\<close> of the bundle.\<close>

definition formatCurrency :: "number_format \<Rightarrow> jsnum \<Rightarrow> string \<Rightarrow> string \<Rightarrow> string" where
  "formatCurrency nf v cur l =
     (let formatted = nf (localeMap l) 0 (Math_round (Math_min v (Num 999999999999)))
      in cur @ '' '' @ formatted @ ''.'' @ en_dash)"

definition formatNumber :: "number_format \<Rightarrow> jsnum \<Rightarrow> nat \<Rightarrow> string \<Rightarrow> string" where
  "formatNumber nf v decimals l =
     nf (localeMap l) decimals (Math_min v (Num 999999999999))"

text \<open>
  \<open>formatCurrency\<close> of the later localization module (the one with \<open>detectCountry\<close>),
  which has a branch for the euro.
\<close>

definition formatCurrency_localization :: "number_format \<Rightarrow> jsnum \<Rightarrow> string \<Rightarrow> string \<Rightarrow> string" where
  "formatCurrency_localization nf v cur l =
     (let rounded = Math_round (Math_min v (Num 999999999999))
      in if cur = ''EUR'' then nf ''de-DE'' 0 rounded @ '' '' @ euro_sign
         else ''CHF '' @ nf ''de-CH'' 0 rounded @ ''.'' @ en_dash)"

text \<open>
  The texts \<open>calculateDiesel\<close> writes into the page. The width of the comparison bar
  and the link of the call to action are left out.
\<close>

record diesel_display =
  primary_result :: string
  r_diesel :: string
  r_co2 :: string
  r_vehicle :: string
  r_invest :: string
  c_without :: string
  c_with :: string
  cta_val :: string

definition calculateDiesel_display :: "number_format \<Rightarrow> module_state \<Rightarrow> diesel_fields \<Rightarrow> diesel_display" where
  "calculateDiesel_display nf st f =
     (let r = calculateDiesel st f; l = currentLang st
      in \<lparr>primary_result = formatCurrency nf (d_net r) ''CHF'' l,
          r_diesel = formatNumber nf (d_litersSaved r) 0 l @ '' L'',
          r_co2 = formatNumber nf (d_co2 r) 1 l @ '' t'',
          r_vehicle = formatCurrency nf (d_perVehicle r) ''CHF'' l,
          r_invest = formatCurrency nf (d_tecCost r) ''CHF'' l,
          c_without = formatCurrency nf (d_costWithout r) ''CHF'' l,
          c_with = formatCurrency nf (d_costWith r) ''CHF'' l,
          cta_val = formatCurrency nf (d_net r) ''CHF'' l\<rparr>)"

section \<open>The class TecCalculator\<close>

record calculator =
  this_lang :: string
  this_country :: string
  this_currency :: string
  this_defaultPrices :: prices
  this_tab :: tab
  this_vehicles :: jsnum

text \<open>
  The constructor options and the \<open>data-\<close> attributes of the container: each entry is
  absent or a text, and the empty text counts as absent in \<open>a || b || c\<close>.
\<close>

record options =
  opt_lang :: "string option"
  opt_country :: "string option"
  opt_currency :: "string option"
  opt_prices :: "prices option"

record dataset =
  data_lang :: "string option"
  data_country :: "string option"
  data_currency :: "string option"

definition first_of :: "string option \<Rightarrow> string option \<Rightarrow> string \<Rightarrow> string" where
  "first_of a b c =
     (case a of
        Some x \<Rightarrow> if x \<noteq> [] then x
                  else (case b of Some y \<Rightarrow> if y \<noteq> [] then y else c | None \<Rightarrow> c)
      | None \<Rightarrow> (case b of Some y \<Rightarrow> if y \<noteq> [] then y else c | None \<Rightarrow> c))"

definition TecCalculator :: "options \<Rightarrow> dataset \<Rightarrow> string \<Rightarrow> calculator" where
  "TecCalculator opts ds hostname =
     (let detected = detectLocale hostname
      in \<lparr>this_lang = first_of (opt_lang opts) (data_lang ds) (lang detected),
          this_country = first_of (opt_country opts) (data_country ds) (country detected),
          this_currency = first_of (opt_currency opts) (data_currency ds) (currency detected),
          this_defaultPrices = (case opt_prices opts of Some p \<Rightarrow> p | None \<Rightarrow> prices detected),
          this_tab = Diesel,
          this_vehicles = Num 5\<rparr>)"

definition no_options :: options where
  "no_options = \<lparr>opt_lang = None, opt_country = None, opt_currency = None, opt_prices = None\<rparr>"

definition no_dataset :: dataset where
  "no_dataset = \<lparr>data_lang = None, data_country = None, data_currency = None\<rparr>"

definition fmtNum :: "number_format \<Rightarrow> calculator \<Rightarrow> jsnum \<Rightarrow> nat \<Rightarrow> string" where
  "fmtNum nf this n d =
     nf (if this_lang this = ''de'' then ''de-CH'' else this_lang this) d (Math_min n MAX_OUT)"

definition fmtCurrency :: "number_format \<Rightarrow> calculator \<Rightarrow> jsnum \<Rightarrow> string" where
  "fmtCurrency nf this n =
     (let val = fmtNum nf this (Math_round (Math_min n MAX_OUT)) 0
      in if this_currency this = ''CHF'' then ''CHF '' @ val @ ''.'' @ en_dash
         else euro_sign @ '' '' @ val)"

definition calcDiesel :: "calculator \<Rightarrow> diesel_fields \<Rightarrow> diesel_result" where
  "calcDiesel this f =
     (let km = clamp (or_else (km_input f) (Num 80000)) (fst LIMITS_km) (snd LIMITS_km);
          price = clamp (or_else (diesel_price f) (diesel (this_defaultPrices this)))
                    (fst LIMITS_price) (snd LIMITS_price);
          cons = read_cons f;
          savePct = clamp (or_else (savings_slider f) (Num 7)) (fst LIMITS_savings) (snd LIMITS_savings)
      in diesel_formulas km price cons savePct (this_vehicles this))"

definition calcHeating :: "calculator \<Rightarrow> heating_fields \<Rightarrow> heating_result" where
  "calcHeating this f =
     (let liters = clamp (or_else (heating_input f) (Num 8000)) (fst LIMITS_heating) (snd LIMITS_heating);
          price = clamp (or_else (heating_price f) (heating (this_defaultPrices this)))
                    (fst LIMITS_price) (snd LIMITS_price);
          savePct = clamp (or_else (heating_savings_slider f) (Num 7)) (fst LIMITS_savings) (snd LIMITS_savings)
      in heating_formulas liters price savePct)"

section \<open>A number format for the Swiss locales\<close>

text \<open>
  Modelled from the spec: \<open>Intl.NumberFormat\<close> is the platform's and no file of the
  repository holds it. The spec and the comments of the code ("CHF 1'234.\<endash>")
  show digits in groups of three with a mark between the groups; the mark is the first
  parameter. The value is rounded to \<open>d\<close> fraction digits, halves away from zero,
  and the fraction follows a point.
\<close>

definition digit_char :: "nat \<Rightarrow> char" where
  "digit_char d = ''0123456789'' ! d"

fun decimal :: "nat \<Rightarrow> string" where
  "decimal n = (if n < 10 then [digit_char n] else decimal (n div 10) @ [digit_char (n mod 10)])"

declare decimal.simps [simp del]

fun group3 :: "string \<Rightarrow> string \<Rightarrow> string" where
  "group3 sep (a # b # c # d # ds) = a # b # c # sep @ group3 sep (d # ds)"
| "group3 sep ds = ds"

definition grouped :: "string \<Rightarrow> nat \<Rightarrow> string" where
  "grouped sep n = rev (group3 (rev sep) (rev (decimal n)))"

definition intl_format :: "string \<Rightarrow> number_format" where
  "intl_format sep locale d v =
     (case v of
        NaN \<Rightarrow> ''NaN''
      | Num x \<Rightarrow>
          (let scaled = nat \<lfloor>\<bar>x\<bar> * 10 ^ d + 1 / 2\<rfloor>;
               whole = scaled div 10 ^ d;
               fraction = decimal (scaled mod 10 ^ d)
           in (if x < 0 then ''-'' else [])
              @ grouped sep whole
              @ (if d = 0 then []
                 else ''.'' @ replicate (d - length fraction) (CHR ''0'') @ fraction)))"

text \<open>The apostrophe of "CHF 11'546.\<endash>".\<close>

definition apostrophe :: string where
  "apostrophe = [CHR 0x27]"

section \<open>The examples of the specification\<close>

definition example1_fields :: diesel_fields where
  "example1_fields =
     \<lparr>km_input = Num 80000, diesel_price = Num 1.95, consumption = Preset (Num 32),
      custom_consumption = Num 32, savings_slider = Num 7\<rparr>"


section \<open>The derived quantities\<close>

text \<open>The quantities that the two calculations derive from the inputs.\<close>

definition diesel_quantities :: "diesel_result \<Rightarrow> jsnum list" where
  "diesel_quantities r =
     [d_totalLiters r, d_litersSaved r, d_gross r, d_tecCost r, d_net r, d_co2 r,
      d_perVehicle r, d_costWithout r, d_costWith r]"

definition heating_quantities :: "heating_result \<Rightarrow> jsnum list" where
  "heating_quantities r =
     [h_litersSaved r, h_gross r, h_tecCost r, h_net r, h_co2 r, h_costWithout r, h_costWith r]"

definition below_ceiling :: "jsnum \<Rightarrow> bool" where
  "below_ceiling q = (case q of NaN \<Rightarrow> False | Num v \<Rightarrow> v < 999999999999)"

section \<open>The vehicle count\<close>

text \<open>
  \<open>calcRawVehicles\<close> runs on every keystroke in the custom vehicle field and
  \<open>clampVehicles\<close> when the field loses focus; the argument is what \<open>parseInt\<close>
  returns on the field. Both go on to \<open>calculate()\<close>.
\<close>

definition calcRawVehicles :: "jsnum \<Rightarrow> module_state \<Rightarrow> module_state" where
  "calcRawVehicles custom_vehicles st = st\<lparr>vehicles := or_else custom_vehicles (Num 1)\<rparr>"

definition clampVehicles :: "jsnum \<Rightarrow> module_state \<Rightarrow> module_state" where
  "clampVehicles custom_vehicles st =
     st\<lparr>vehicles := clamp (or_else custom_vehicles (Num 1)) (fst LIMITS_vehicles) (snd LIMITS_vehicles)\<rparr>"

text \<open>
  The nearest bound, in the words of the specification: a value below the minimum is
  replaced by the minimum, a value above the maximum by the maximum.
\<close>

definition nearest :: "jsnum \<times> jsnum \<Rightarrow> real \<Rightarrow> jsnum" where
  "nearest limits v =
     (case limits of
        (Num lo, Num hi) \<Rightarrow> Num (if v < lo then lo else if hi < v then hi else v)
      | _ \<Rightarrow> NaN)"

text \<open>The countries of the table \<open>defaultPrices\<close>.\<close>

definition supported_countries :: "string list" where
  "supported_countries = [''CH'', ''AT'', ''DE'', ''FR'', ''IT'']"

text \<open>The texts \<open>calculateHeating\<close> writes into the page.\<close>

record heating_display =
  primary_result_h :: string
  rh_oil :: string
  rh_co2 :: string
  rh_invest :: string
  ch_without :: string
  ch_with :: string
  cta_val_h :: string

definition calculateHeating_display :: "number_format \<Rightarrow> module_state \<Rightarrow> heating_fields \<Rightarrow> heating_display" where
  "calculateHeating_display nf st f =
     (let r = calculateHeating f; l = currentLang st
      in \<lparr>primary_result_h = formatCurrency nf (h_net r) ''CHF'' l,
          rh_oil = formatNumber nf (h_litersSaved r) 0 l @ '' L'',
          rh_co2 = formatNumber nf (h_co2 r) 2 l @ '' t'',
          rh_invest = formatCurrency nf (h_tecCost r) ''CHF'' l,
          ch_without = formatCurrency nf (h_costWithout r) ''CHF'' l,
          ch_with = formatCurrency nf (h_costWith r) ''CHF'' l,
          cta_val_h = formatCurrency nf (h_net r) ''CHF'' l\<rparr>)"

section \<open>Translations\<close>

text \<open>
  The values a lookup can meet: \<open>undefined\<close>, \<open>null\<close>, a text, a plain object with
  its own properties (as \<open>JSON.parse\<close> builds it), or any other value (a number, a
  boolean, an array, a function), given by its conversion to text and by whether it
  counts as true.
\<close>

datatype jsval = Undefined | Null | Str string | Other string bool | Obj "(string \<times> jsval) list"

datatype js_error = TypeError

fun truthy :: "jsval \<Rightarrow> bool" where
  "truthy Undefined = False"
| "truthy Null = False"
| "truthy (Str s) = (s \<noteq> [])"
| "truthy (Other s b) = b"
| "truthy (Obj ps) = True"

text \<open>
  \<open>current[key]\<close>. Reading a property of \<open>undefined\<close> or \<open>null\<close> raises a TypeError. A
  plain object answers with its own property when it has one. What a value answers
  otherwise (a property of a prototype, an index of a text) is the language's and is
  taken as the parameter \<open>inh\<close>.
\<close>

type_synonym builtin = "jsval \<Rightarrow> string \<Rightarrow> jsval"

fun get_prop :: "builtin \<Rightarrow> jsval \<Rightarrow> string \<Rightarrow> js_error + jsval" where
  "get_prop inh Undefined k = Inl TypeError"
| "get_prop inh Null k = Inl TypeError"
| "get_prop inh (Obj ps) k = (case map_of ps k of Some x \<Rightarrow> Inr x | None \<Rightarrow> Inr (inh (Obj ps) k))"
| "get_prop inh v k = Inr (inh v k)"

text \<open>
  The function handed to \<open>reduce\<close>:
  \<open>current && current[key] !== undefined ? current[key] : undefined\<close>.
\<close>

definition reducer :: "builtin \<Rightarrow> jsval \<Rightarrow> string \<Rightarrow> js_error + jsval" where
  "reducer inh current key =
     (if truthy current
      then (case get_prop inh current key of
              Inl e \<Rightarrow> Inl e
            | Inr x \<Rightarrow> if x \<noteq> Undefined then get_prop inh current key else Inr Undefined)
      else Inr Undefined)"

fun reduce :: "builtin \<Rightarrow> jsval \<Rightarrow> string list \<Rightarrow> js_error + jsval" where
  "reduce inh current [] = Inr current"
| "reduce inh current (key # keys) =
     (case reducer inh current key of Inl e \<Rightarrow> Inl e | Inr v \<Rightarrow> reduce inh v keys)"

definition getNestedValue :: "builtin \<Rightarrow> jsval \<Rightarrow> string \<Rightarrow> js_error + jsval" where
  "getNestedValue inh obj path = reduce inh obj (split_on (CHR ''.'') path)"


text \<open>
  An object without inherited properties.
\<close>

definition own_only :: builtin where
  "own_only v k = Undefined"

text \<open>
  An element carrying \<open>data-i18n\<close>, with its children one level deep: text nodes and
  child elements, each given by its classes and its text.
\<close>

datatype node = TextNode string | ElementNode "string list" string

record element =
  tagName :: string
  classList :: "string list"
  data_i18n :: string
  data_i18n_tooltip :: "string option"
  childNodes :: "node list"

text \<open>
  The text written when a value is assigned to \<open>textContent\<close>; \<open>null\<close> is written as
  the empty text. Only values that count as true are ever assigned.
\<close>

fun to_text :: "jsval \<Rightarrow> string" where
  "to_text (Str s) = s"
| "to_text (Other s b) = s"
| "to_text (Obj ps) = ''[object Object]''"
| "to_text Undefined = ''undefined''"
| "to_text Null = []"

definition set_textContent :: "string \<Rightarrow> element \<Rightarrow> element" where
  "set_textContent s el = el\<lparr>childNodes := (if s = [] then [] else [TextNode s])\<rparr>"

fun is_text :: "node \<Rightarrow> bool" where
  "is_text (TextNode t) = True"
| "is_text (ElementNode cs t) = False"

fun is_tooltip_span :: "node \<Rightarrow> bool" where
  "is_tooltip_span (TextNode t) = False"
| "is_tooltip_span (ElementNode cs t) = (''tec-tooltip-text'' \<in> set cs)"

text \<open>
  \<open>textNode.textContent = s\<close> on the first text node, \<open>insertBefore\<close> of a new text
  node before the tooltip span, and \<open>tooltipSpan.textContent = s\<close>.
\<close>

fun set_first_text :: "string \<Rightarrow> node list \<Rightarrow> node list" where
  "set_first_text s [] = []"
| "set_first_text s (TextNode t # ns) = TextNode s # ns"
| "set_first_text s (n # ns) = n # set_first_text s ns"

fun insert_before_span :: "string \<Rightarrow> node list \<Rightarrow> node list" where
  "insert_before_span s [] = []"
| "insert_before_span s (n # ns) =
     (if is_tooltip_span n then TextNode s # n # ns else n # insert_before_span s ns)"

fun set_span_text :: "string \<Rightarrow> node list \<Rightarrow> node list" where
  "set_span_text s [] = []"
| "set_span_text s (TextNode t # ns) = TextNode t # set_span_text s ns"
| "set_span_text s (ElementNode cs t # ns) =
     (if ''tec-tooltip-text'' \<in> set cs then ElementNode cs s # ns
      else ElementNode cs t # set_span_text s ns)"

text \<open>
  The body of the loop of \<open>applyTranslations\<close>, for one element.
\<close>

definition translate_element :: "builtin \<Rightarrow> jsval \<Rightarrow> element \<Rightarrow> js_error + element" where
  "translate_element inh translations el =
     (case getNestedValue inh translations (data_i18n el) of
        Inl e \<Rightarrow> Inl e
      | Inr translation \<Rightarrow>
          if truthy translation then
            if tagName el = ''OPTION'' then Inr (set_textContent (to_text translation) el)
            else if ''tec-tooltip'' \<in> set (classList el) then
              (let tooltipSpan = (\<exists>n \<in> set (childNodes el). is_tooltip_span n);
                   el1 = (if \<exists>n \<in> set (childNodes el). is_text n
                          then el\<lparr>childNodes := set_first_text (to_text translation) (childNodes el)\<rparr>
                          else if tooltipSpan
                          then el\<lparr>childNodes := insert_before_span (to_text translation) (childNodes el)\<rparr>
                          else set_textContent (to_text translation) el)
               in case data_i18n_tooltip el of
                    None \<Rightarrow> Inr el1
                  | Some tooltipKey \<Rightarrow>
                      if tooltipSpan \<and> tooltipKey \<noteq> [] then
                        (case getNestedValue inh translations tooltipKey of
                           Inl e \<Rightarrow> Inl e
                         | Inr tooltipTranslation \<Rightarrow>
                             if truthy tooltipTranslation
                             then Inr (el1\<lparr>childNodes :=
                                    set_span_text (to_text tooltipTranslation) (childNodes el1)\<rparr>)
                             else Inr el1)
                      else Inr el1)
            else Inr (set_textContent (to_text translation) el)
          else Inr el)"




definition sample_translations :: jsval where
  "sample_translations =
     Obj [(''header'', Obj [(''title'', Str ''Savings Calculator'')]),
          (''currency'', Str ''CHF'')]"

definition sample_element :: element where
  "sample_element =
     \<lparr>tagName = ''H2'', classList = [], data_i18n = ''header.heading'',
      data_i18n_tooltip = None, childNodes = [TextNode ''Ersparnis-Rechner'']\<rparr>"

section \<open>Clamping\<close>

lemmas LIMITS_defs =
  LIMITS_km_def LIMITS_cons_def LIMITS_vehicles_def LIMITS_heating_def
  LIMITS_price_def LIMITS_savings_def

lemma clamp_Num:
  "clamp (Num v) (Num lo) (Num hi) = Num (min hi (max lo v))"
  by (simp add: clamp_def)

lemma clamp_NaN: "clamp NaN lo hi = NaN"
  by (cases hi) (simp_all add: clamp_def)

text \<open>
  C9. For bounds with \<open>min \<le> max\<close>, \<open>clamp\<close> returns a value of the range unchanged,
  and clamping twice is clamping once, for every number and for \<open>NaN\<close>.
\<close>

theorem clamp_idempotent:
  assumes "lo \<le> hi"
  shows "(lo \<le> x \<and> x \<le> hi \<longrightarrow> clamp (Num x) (Num lo) (Num hi) = Num x)
       \<and> clamp (clamp v (Num lo) (Num hi)) (Num lo) (Num hi) = clamp v (Num lo) (Num hi)"
proof (cases v)
  case NaN
  then show ?thesis by (auto simp add: clamp_NaN clamp_Num)
next
  case (Num r)
  with assms show ?thesis by (auto simp add: clamp_Num)
qed

theorem clamp_idempotent_witness:
  "(1::real) \<le> 25
   \<and> clamp (Num 7) (Num 1) (Num 25) = Num 7
   \<and> clamp (clamp (Num 50) (Num 1) (Num 25)) (Num 1) (Num 25) = Num 25
   \<and> clamp (Num 50) (Num 1) (Num 25) = Num 25"
proof -
  have h: "(1::real) \<le> 25" by simp
  show ?thesis
    using clamp_idempotent [OF h, of 7 "Num 50"] by (simp add: clamp_Num)
qed


section \<open>Reading a field\<close>

lemma read_in_range:
  "lo \<le> v \<Longrightarrow> v \<le> hi \<Longrightarrow> 0 < lo \<Longrightarrow> clamp (or_else (Num v) d) (Num lo) (Num hi) = Num v"
  by (simp add: or_else_def clamp_Num)

lemma clamp_in_range:
  "lo \<le> v \<Longrightarrow> v \<le> hi \<Longrightarrow> clamp (Num v) (Num lo) (Num hi) = Num v"
  by (simp add: clamp_Num)

lemma read_cons_in_range:
  assumes "1 \<le> c" "c \<le> 150"
    and "consumption f = Preset (Num c) \<or> (consumption f = Custom \<and> custom_consumption f = Num c)"
  shows "read_cons f = Num c"
  using assms by (auto simp add: read_cons_def LIMITS_defs read_in_range clamp_in_range)

section \<open>The vehicle mode\<close>

lemma d_net_formula:
  "d_net (diesel_formulas (Num km) (Num p) (Num c) (Num s) (Num n)) =
     Num (max 0 (km / 100 * c * n * (s / 100) * p - km / 100 * c * n * 0.0463))"
  by (simp add: diesel_formulas_def Let_def TEC_COST_def)

lemma calculateDiesel_in_range:
  assumes "1000 \<le> km" "km \<le> 300000" "1 / 2 \<le> p" "p \<le> 5" "1 \<le> c" "c \<le> 150"
    and "1 \<le> s" "s \<le> 25"
    and "km_input f = Num km" "diesel_price f = Num p" "savings_slider f = Num s"
    and "consumption f = Preset (Num c) \<or> (consumption f = Custom \<and> custom_consumption f = Num c)"
  shows "calculateDiesel st f = diesel_formulas (Num km) (Num p) (Num c) (Num s) (vehicles st)"
    and "calcDiesel this f = diesel_formulas (Num km) (Num p) (Num c) (Num s) (this_vehicles this)"
proof -
  have cons: "read_cons f = Num c" using assms(5,6,12) by (rule read_cons_in_range)
  show "calculateDiesel st f = diesel_formulas (Num km) (Num p) (Num c) (Num s) (vehicles st)"
    using assms(1-4,7-11) cons
    by (simp add: calculateDiesel_def Let_def LIMITS_defs read_in_range)
  show "calcDiesel this f = diesel_formulas (Num km) (Num p) (Num c) (Num s) (this_vehicles this)"
    using assms(1-4,7-11) cons
    by (simp add: calcDiesel_def Let_def LIMITS_defs read_in_range)
qed

text \<open>
  C1. When every field of the vehicle mode holds a number within its bounds and the
  vehicle count is an integer from 1 to 1000, the net annual savings computed by
  \<open>calculateDiesel\<close> and by \<open>calcDiesel\<close> is
  \<open>max(0, litersSaved * price - totalLiters * 0.0463)\<close> with
  \<open>litersSaved = (km / 100) * consumption * vehicles * (percent / 100)\<close>, and it is
  not negative.
\<close>

theorem net_savings_formula:
  assumes "1000 \<le> km" "km \<le> 300000" "1 / 2 \<le> p" "p \<le> 5" "1 \<le> c" "c \<le> 150"
    and "1 \<le> s" "s \<le> 25" "1 \<le> n" "n \<le> 1000"
    and "km_input f = Num km" "diesel_price f = Num p" "savings_slider f = Num s"
    and "consumption f = Preset (Num c) \<or> (consumption f = Custom \<and> custom_consumption f = Num c)"
    and "vehicles st = Num (of_int n)" "this_vehicles this = Num (of_int n)"
    and "litersSaved = km / 100 * c * of_int n * (s / 100)"
    and "totalLiters = km / 100 * c * of_int n"
  shows "d_net (calculateDiesel st f) = Num (max 0 (litersSaved * p - totalLiters * 0.0463))
       \<and> d_net (calcDiesel this f) = Num (max 0 (litersSaved * p - totalLiters * 0.0463))
       \<and> (\<exists>v\<ge>0. d_net (calculateDiesel st f) = Num v)
       \<and> (\<exists>v\<ge>0. d_net (calcDiesel this f) = Num v)"
proof -
  have a: "calculateDiesel st f = diesel_formulas (Num km) (Num p) (Num c) (Num s) (Num (of_int n))"
    using calculateDiesel_in_range(1) [OF assms(1-8,11-14)] assms(15) by simp
  have b: "calcDiesel this f = diesel_formulas (Num km) (Num p) (Num c) (Num s) (Num (of_int n))"
    using calculateDiesel_in_range(2) [OF assms(1-8,11-14)] assms(16) by simp
  have n1: "d_net (calculateDiesel st f) = Num (max 0 (litersSaved * p - totalLiters * 0.0463))"
    unfolding assms(17,18) a by (rule d_net_formula)
  have n2: "d_net (calcDiesel this f) = Num (max 0 (litersSaved * p - totalLiters * 0.0463))"
    unfolding assms(17,18) b by (rule d_net_formula)
  have pos: "(0::real) \<le> max 0 (litersSaved * p - totalLiters * 0.0463)"
    by (rule max.cobounded1)
  from n1 n2 pos show ?thesis by blast
qed

theorem net_savings_formula_witness:
  "d_net (calculateDiesel (initial_state\<lparr>vehicles := Num 10\<rparr>)
      \<lparr>km_input = Num 100000, diesel_price = Num 2, consumption = Custom,
       custom_consumption = Num 10, savings_slider = Num 5\<rparr>) = Num 5370
   \<and> d_net (calcDiesel ((TecCalculator no_options no_dataset ''tecblu.at'')\<lparr>this_vehicles := Num 10\<rparr>)
      \<lparr>km_input = Num 100000, diesel_price = Num 2, consumption = Custom,
       custom_consumption = Num 10, savings_slider = Num 5\<rparr>) = Num 5370"
  using net_savings_formula [of 100000 2 10 5 10
      "\<lparr>km_input = Num 100000, diesel_price = Num 2, consumption = Custom,
        custom_consumption = Num 10, savings_slider = Num 5\<rparr>"
      "initial_state\<lparr>vehicles := Num 10\<rparr>"
      "(TecCalculator no_options no_dataset ''tecblu.at'')\<lparr>this_vehicles := Num 10\<rparr>"
      "100000 / 100 * 10 * of_int 10 * (5 / 100)" "100000 / 100 * 10 * of_int 10"]
  by simp

section \<open>Example 1\<close>






section \<open>The heating mode\<close>

lemma calculateHeating_in_range:
  assumes "500 \<le> l" "l \<le> 500000" "1 / 2 \<le> p" "p \<le> 5" "1 \<le> s" "s \<le> 25"
    and "heating_input f = Num l" "heating_price f = Num p" "heating_savings_slider f = Num s"
  shows "calculateHeating f = heating_formulas (Num l) (Num p) (Num s)"
  using assms by (simp add: calculateHeating_def Let_def LIMITS_defs read_in_range)

lemma heating_formulas_Num:
  "heating_formulas (Num l) (Num p) (Num s) =
     \<lparr>h_liters = Num l, h_price = Num p, h_savePct = Num s,
      h_litersSaved = Num (l * (s / 100)),
      h_gross = Num (l * (s / 100) * p),
      h_tecCost = Num (l * 0.0463),
      h_net = Num (max 0 (l * (s / 100) * p - l * 0.0463)),
      h_co2 = Num (l * (s / 100) * (2.65 / 1000)),
      h_costWithout = Num (l * p),
      h_costWith = Num (l * p - max 0 (l * (s / 100) * p - l * 0.0463))\<rparr>"
  unfolding heating_formulas_def Let_def TEC_COST_def CO2_LITER_def
  by (simp only: mul.simps sub.simps divide_js.simps Math_max.simps) simp




section \<open>Example 5\<close>

text \<open>
  C7. For the host name en.tecblu.it and no override, \<open>detectLocale\<close> returns the
  language en, the country IT and the currency EUR; so does a \<open>TecCalculator\<close> built
  with no option and no \<open>data-\<close> attribute, and \<open>detectLanguage\<close> of the bundle
  returns en.
\<close>

lemma detectLocale_en_tecblu_it:
  "detectLocale ''en.tecblu.it'' =
     \<lparr>lang = ''en'', country = ''IT'', currency = ''EUR'',
      prices = \<lparr>diesel = Num 1.80, heating = Num 1.20\<rparr>\<rparr>"
  by code_simp

theorem en_tecblu_it:
  "lang (detectLocale ''en.tecblu.it'') = ''en''
   \<and> country (detectLocale ''en.tecblu.it'') = ''IT''
   \<and> currency (detectLocale ''en.tecblu.it'') = ''EUR''
   \<and> this_lang (TecCalculator no_options no_dataset ''en.tecblu.it'') = ''en''
   \<and> this_country (TecCalculator no_options no_dataset ''en.tecblu.it'') = ''IT''
   \<and> this_currency (TecCalculator no_options no_dataset ''en.tecblu.it'') = ''EUR''
   \<and> detectLanguage None ''en.tecblu.it'' = ''en''"
  by (simp add: detectLocale_en_tecblu_it TecCalculator_def no_options_def no_dataset_def
        first_of_def detectLanguage_def URL_PATTERNS_def)

section \<open>The output ceiling\<close>

lemma prod_bound:
  fixes a b :: real
  shows "0 \<le> a \<Longrightarrow> a \<le> A \<Longrightarrow> 0 \<le> b \<Longrightarrow> b \<le> B \<Longrightarrow> 0 \<le> a * b \<and> a * b \<le> A * B"
  by (simp add: mult_mono)

lemma diesel_bounds:
  fixes km c n s p :: real
  assumes "1000 \<le> km" "km \<le> 300000" "1 / 2 \<le> p" "p \<le> 5" "1 \<le> c" "c \<le> 150"
    and "1 \<le> s" "s \<le> 25" "1 \<le> n" "n \<le> 1000"
  defines "tot \<equiv> km / 100 * c * n"
  defines "sav \<equiv> tot * (s / 100)"
  defines "net \<equiv> max 0 (sav * p - tot * 0.0463)"
  shows "0 \<le> tot" "tot \<le> 450000000" "0 \<le> sav" "sav \<le> 112500000" "0 \<le> sav * p" "sav * p \<le> 562500000"
    "0 \<le> net" "net \<le> 562500000" "net / n \<le> 562500000" "0 \<le> tot * p" "tot * p \<le> 2250000000"
proof -
  have a: "0 \<le> km / 100 * c \<and> km / 100 * c \<le> 3000 * 150"
    using assms(1,2,5,6) by (intro prod_bound) simp_all
  have b: "0 \<le> tot \<and> tot \<le> (3000 * 150) * 1000"
    unfolding tot_def using a assms(9,10) by (intro prod_bound) simp_all
  show t0: "0 \<le> tot" and t1: "tot \<le> 450000000" using b by simp_all
  have c: "0 \<le> sav \<and> sav \<le> 450000000 * (1 / 4)"
    unfolding sav_def using t0 t1 assms(7,8) by (intro prod_bound) simp_all
  show s0: "0 \<le> sav" and s1: "sav \<le> 112500000" using c by simp_all
  have d: "0 \<le> sav * p \<and> sav * p \<le> 112500000 * 5"
    using s0 s1 assms(3,4) by (intro prod_bound) simp_all
  show g0: "0 \<le> sav * p" and g1: "sav * p \<le> 562500000" using d by simp_all
  have cost0: "0 \<le> tot * 0.0463" using t0 by simp
  show n0: "0 \<le> net" by (simp add: net_def)
  show n1: "net \<le> 562500000" unfolding net_def using g1 cost0 by simp
  have "net * 1 \<le> net * n" using n0 assms(9) by (intro mult_left_mono)
  then have "net / n \<le> net" using assms(9) by (simp add: divide_le_eq)
  then show "net / n \<le> 562500000" using n1 by simp
  have e: "0 \<le> tot * p \<and> tot * p \<le> 450000000 * 5"
    using t0 t1 assms(3,4) by (intro prod_bound) simp_all
  show "0 \<le> tot * p" and "tot * p \<le> 2250000000" using e by simp_all
qed

lemma diesel_formulas_Num:
  "n \<noteq> 0 \<Longrightarrow>
   diesel_formulas (Num km) (Num p) (Num c) (Num s) (Num n) =
     \<lparr>d_km = Num km, d_price = Num p, d_cons = Num c, d_savePct = Num s,
      d_litersPerVehicle = Num (km / 100 * c),
      d_totalLiters = Num (km / 100 * c * n),
      d_litersSaved = Num (km / 100 * c * n * (s / 100)),
      d_gross = Num (km / 100 * c * n * (s / 100) * p),
      d_tecCost = Num (km / 100 * c * n * 0.0463),
      d_net = Num (max 0 (km / 100 * c * n * (s / 100) * p - km / 100 * c * n * 0.0463)),
      d_co2 = Num (km / 100 * c * n * (s / 100) * (2.65 / 1000)),
      d_perVehicle = Num (max 0 (max 0 (km / 100 * c * n * (s / 100) * p - km / 100 * c * n * 0.0463) / n)),
      d_costWithout = Num (km / 100 * c * n * p),
      d_costWith = Num (km / 100 * c * n * p - max 0 (km / 100 * c * n * (s / 100) * p - km / 100 * c * n * 0.0463))\<rparr>"
  unfolding diesel_formulas_def Let_def TEC_COST_def CO2_LITER_def
  by (simp only: mul.simps sub.simps divide_js.simps Math_max.simps) simp

lemma diesel_below_ceiling:
  fixes km c n s p :: real
  assumes "1000 \<le> km" "km \<le> 300000" "1 / 2 \<le> p" "p \<le> 5" "1 \<le> c" "c \<le> 150"
    and "1 \<le> s" "s \<le> 25" "1 \<le> n" "n \<le> 1000"
  shows "list_all below_ceiling (diesel_quantities (diesel_formulas (Num km) (Num p) (Num c) (Num s) (Num n)))"
proof -
  have n0: "n \<noteq> 0" using assms(9) by simp
  note b = diesel_bounds [OF assms]
  show ?thesis
    unfolding diesel_formulas_Num [OF n0] diesel_quantities_def
    using b by (simp add: below_ceiling_def)
qed

lemma heating_below_ceiling:
  fixes l s p :: real
  assumes "500 \<le> l" "l \<le> 500000" "1 / 2 \<le> p" "p \<le> 5" "1 \<le> s" "s \<le> 25"
  shows "list_all below_ceiling (heating_quantities (heating_formulas (Num l) (Num p) (Num s)))"
proof -
  have a: "0 \<le> l * (s / 100) \<and> l * (s / 100) \<le> 500000 * (1 / 4)"
    using assms(1,2,5,6) by (intro prod_bound) simp_all
  then have b: "0 \<le> l * (s / 100) * p \<and> l * (s / 100) * p \<le> 500000 * (1 / 4) * 5"
    using assms(3,4) by (intro prod_bound) simp_all
  have c: "0 \<le> l * p \<and> l * p \<le> 500000 * 5"
    using assms(1-4) by (intro prod_bound) simp_all
  have d: "0 \<le> max 0 (l * (s / 100) * p - l * 0.0463)"
    by (rule max.cobounded1)
  have e: "max 0 (l * (s / 100) * p - l * 0.0463) \<le> l * (s / 100) * p"
  proof (rule max.boundedI)
    show "0 \<le> l * (s / 100) * p" using b by blast
    show "l * (s / 100) * p - l * 0.0463 \<le> l * (s / 100) * p" using assms(1) by simp
  qed
  have f: "l * p - max 0 (l * (s / 100) * p - l * 0.0463) < 999999999999"
    using c d by linarith
  have g: "max 0 (l * (s / 100) * p - l * 0.0463) < 999999999999"
    using b e by linarith
  show ?thesis
    unfolding heating_formulas_Num heating_quantities_def
    using a b c f g assms(1,2) by (simp add: below_ceiling_def)
qed

lemma below_ceiling_min:
  "below_ceiling q \<Longrightarrow> Math_min q (Num 999999999999) = q"
  by (cases q) (simp_all add: below_ceiling_def)

text \<open>
  C10. When every field holds a number within its bounds and the vehicle count is an
  integer from 1 to 1000, each derived quantity of both modes is a number below
  999999999999, so that the minimum with the ceiling taken by \<open>formatCurrency\<close> and
  \<open>formatNumber\<close> returns the quantity itself and the helpers format the quantity
  unchanged.
\<close>

theorem outputs_below_ceiling:
  assumes "1000 \<le> km" "km \<le> 300000" "1 / 2 \<le> p" "p \<le> 5" "1 \<le> c" "c \<le> 150"
    and "1 \<le> s" "s \<le> 25"
    and "km_input f = Num km" "diesel_price f = Num p" "savings_slider f = Num s"
    and "consumption f = Preset (Num c) \<or> (consumption f = Custom \<and> custom_consumption f = Num c)"
    and "1 \<le> n" "n \<le> 1000" "vehicles st = Num (of_int n)"
    and "500 \<le> l" "l \<le> 500000" "1 / 2 \<le> ph" "ph \<le> 5" "1 \<le> sh" "sh \<le> 25"
    and "heating_input g = Num l" "heating_price g = Num ph" "heating_savings_slider g = Num sh"
  shows "\<forall>q \<in> set (diesel_quantities (calculateDiesel st f))
               \<union> set (heating_quantities (calculateHeating g)).
           below_ceiling q
         \<and> Math_min q (Num 999999999999) = q
         \<and> (\<forall>nf cur la d.
               formatCurrency nf q cur la
                 = cur @ '' '' @ nf (localeMap la) 0 (Math_round q) @ ''.'' @ en_dash
             \<and> formatNumber nf q d la = nf (localeMap la) d q)"
proof -
  have d: "calculateDiesel st f = diesel_formulas (Num km) (Num p) (Num c) (Num s) (Num (of_int n))"
    using calculateDiesel_in_range(1) [OF assms(1-12)] assms(15) by simp
  have n: "(1::real) \<le> of_int n" "(of_int n :: real) \<le> 1000" using assms(13,14) by simp_all
  have h: "calculateHeating g = heating_formulas (Num l) (Num ph) (Num sh)"
    using assms(16-24) by (rule calculateHeating_in_range)
  have "list_all below_ceiling (diesel_quantities (calculateDiesel st f))"
    unfolding d using assms(1-8) n by (rule diesel_below_ceiling)
  moreover have "list_all below_ceiling (heating_quantities (calculateHeating g))"
    unfolding h using assms(16-21) by (rule heating_below_ceiling)
  ultimately have all: "\<forall>q \<in> set (diesel_quantities (calculateDiesel st f))
               \<union> set (heating_quantities (calculateHeating g)). below_ceiling q"
    by (auto simp add: list_all_iff)
  show ?thesis
  proof
    fix q
    assume "q \<in> set (diesel_quantities (calculateDiesel st f))
               \<union> set (heating_quantities (calculateHeating g))"
    with all have b: "below_ceiling q" by blast
    then have m: "Math_min q (Num 999999999999) = q" by (rule below_ceiling_min)
    show "below_ceiling q
         \<and> Math_min q (Num 999999999999) = q
         \<and> (\<forall>nf cur la d.
               formatCurrency nf q cur la
                 = cur @ '' '' @ nf (localeMap la) 0 (Math_round q) @ ''.'' @ en_dash
             \<and> formatNumber nf q d la = nf (localeMap la) d q)"
      using b m by (simp add: formatCurrency_def formatNumber_def)
  qed
qed

theorem outputs_below_ceiling_witness:
  "below_ceiling (d_costWithout (calculateDiesel (initial_state\<lparr>vehicles := Num 1000\<rparr>)
       \<lparr>km_input = Num 300000, diesel_price = Num 5, consumption = Custom,
        custom_consumption = Num 150, savings_slider = Num 25\<rparr>))
   \<and> Math_min (d_costWithout (calculateDiesel (initial_state\<lparr>vehicles := Num 1000\<rparr>)
       \<lparr>km_input = Num 300000, diesel_price = Num 5, consumption = Custom,
        custom_consumption = Num 150, savings_slider = Num 25\<rparr>)) (Num 999999999999)
     = Num 2250000000"
proof -
  let ?f = "\<lparr>km_input = Num 300000, diesel_price = Num 5, consumption = Custom,
        custom_consumption = Num 150, savings_slider = Num 25\<rparr>"
  let ?st = "initial_state\<lparr>vehicles := Num 1000\<rparr>"
  let ?g = "\<lparr>heating_input = Num 500000, heating_price = Num 5, heating_savings_slider = Num 25\<rparr>"
  have all: "\<forall>q \<in> set (diesel_quantities (calculateDiesel ?st ?f))
               \<union> set (heating_quantities (calculateHeating ?g)).
           below_ceiling q \<and> Math_min q (Num 999999999999) = q"
    using outputs_below_ceiling [of 300000 5 150 25 ?f 1000 ?st 500000 5 25 ?g] by simp
  have mem: "d_costWithout (calculateDiesel ?st ?f)
      \<in> set (diesel_quantities (calculateDiesel ?st ?f)) \<union> set (heating_quantities (calculateHeating ?g))"
    by (simp add: diesel_quantities_def)
  have val: "d_costWithout (calculateDiesel ?st ?f) = Num 2250000000"
    by (simp add: calculateDiesel_def initial_state_def read_cons_def LIMITS_defs or_else_def
          clamp_Num diesel_formulas_def Let_def)
  from all mem have "below_ceiling (d_costWithout (calculateDiesel ?st ?f))
      \<and> Math_min (d_costWithout (calculateDiesel ?st ?f)) (Num 999999999999)
          = d_costWithout (calculateDiesel ?st ?f)"
    by blast
  then show ?thesis by (simp add: val)
qed

section \<open>Out-of-range input\<close>

lemma clamp_nearest:
  "lo \<le> hi \<Longrightarrow> clamp (Num v) (Num lo) (Num hi) = nearest (Num lo, Num hi) v"
  by (auto simp add: clamp_Num nearest_def)

text \<open>
  C4, as stated, fails: while the user types 5000 into the custom vehicle field,
  \<open>calcRawVehicles\<close> stores 5000 and the calculation runs with 5000 vehicles, not
  with the bound 1000.
\<close>

theorem vehicles_counterexample:
  "vehicles (calcRawVehicles (Num 5000) initial_state) = Num 5000
   \<and> nearest LIMITS_vehicles 5000 = Num 1000
   \<and> d_totalLiters (calculateDiesel (calcRawVehicles (Num 5000) initial_state) example1_fields)
       = Num 128000000"
  by (simp add: calcRawVehicles_def initial_state_def or_else_def nearest_def LIMITS_defs
        calculateDiesel_def example1_fields_def read_cons_def clamp_Num diesel_formulas_def Let_def)

text \<open>
  A field whose text parses to 0 counts as false in \<open>parseFloat(..) || fallback\<close> and
  takes the fallback, not the minimum.
\<close>

lemma zero_takes_fallback:
  "d_km (calculateDiesel st (f\<lparr>km_input := Num 0\<rparr>)) = Num 80000"
  by (simp add: calculateDiesel_def or_else_def LIMITS_defs clamp_Num diesel_formulas_def Let_def)

lemma d_inputs:
  "d_km (diesel_formulas a b c d e) = a" "d_price (diesel_formulas a b c d e) = b"
  "d_cons (diesel_formulas a b c d e) = c" "d_savePct (diesel_formulas a b c d e) = d"
  by (simp_all add: diesel_formulas_def Let_def)

lemma h_inputs:
  "h_liters (heating_formulas a b c) = a" "h_price (heating_formulas a b c) = b"
  "h_savePct (heating_formulas a b c) = c"
  by (simp_all add: heating_formulas_def Let_def)

text \<open>
  C4, amended. Every field that \<open>calculateDiesel\<close>, \<open>calculateHeating\<close>, \<open>calcDiesel\<close>
  and \<open>calcHeating\<close> read (distance, price, custom consumption, savings percent,
  heating litres) and that parses to a number other than 0 is used as the nearest
  bound when it lies outside its bounds (and unchanged inside); so is the vehicle
  count once \<open>clampVehicles\<close> has run, while \<open>calcRawVehicles\<close> stores it as typed.
\<close>

theorem nonzero_fields_clamped:
  assumes "v \<noteq> 0"
  shows "d_km (calculateDiesel st (f\<lparr>km_input := Num v\<rparr>)) = nearest LIMITS_km v
       \<and> d_price (calculateDiesel st (f\<lparr>diesel_price := Num v\<rparr>)) = nearest LIMITS_price v
       \<and> d_cons (calculateDiesel st (f\<lparr>consumption := Custom, custom_consumption := Num v\<rparr>))
           = nearest LIMITS_cons v
       \<and> d_savePct (calculateDiesel st (f\<lparr>savings_slider := Num v\<rparr>)) = nearest LIMITS_savings v
       \<and> h_liters (calculateHeating (g\<lparr>heating_input := Num v\<rparr>)) = nearest LIMITS_heating v
       \<and> h_price (calculateHeating (g\<lparr>heating_price := Num v\<rparr>)) = nearest LIMITS_price v
       \<and> h_savePct (calculateHeating (g\<lparr>heating_savings_slider := Num v\<rparr>))
           = nearest LIMITS_savings v
       \<and> d_km (calcDiesel this (f\<lparr>km_input := Num v\<rparr>)) = nearest LIMITS_km v
       \<and> d_price (calcDiesel this (f\<lparr>diesel_price := Num v\<rparr>)) = nearest LIMITS_price v
       \<and> d_cons (calcDiesel this (f\<lparr>consumption := Custom, custom_consumption := Num v\<rparr>))
           = nearest LIMITS_cons v
       \<and> d_savePct (calcDiesel this (f\<lparr>savings_slider := Num v\<rparr>)) = nearest LIMITS_savings v
       \<and> h_liters (calcHeating this (g\<lparr>heating_input := Num v\<rparr>)) = nearest LIMITS_heating v
       \<and> h_price (calcHeating this (g\<lparr>heating_price := Num v\<rparr>)) = nearest LIMITS_price v
       \<and> h_savePct (calcHeating this (g\<lparr>heating_savings_slider := Num v\<rparr>))
           = nearest LIMITS_savings v
       \<and> vehicles (clampVehicles (Num v) st) = nearest LIMITS_vehicles v
       \<and> vehicles (calcRawVehicles (Num v) st) = Num v"
  using assms
  by (simp add: calculateDiesel_def calculateHeating_def calcDiesel_def calcHeating_def d_inputs h_inputs Let_def read_cons_def
        LIMITS_defs clamp_nearest clampVehicles_def calcRawVehicles_def or_else_def)

theorem nonzero_fields_clamped_witness:
  "d_savePct (calculateDiesel initial_state (example1_fields\<lparr>savings_slider := Num 50\<rparr>)) = Num 25
   \<and> d_km (calculateDiesel initial_state (example1_fields\<lparr>km_input := Num 50\<rparr>)) = Num 1000"
  using nonzero_fields_clamped [of 50 initial_state example1_fields]
  by (simp add: nearest_def LIMITS_defs)

section \<open>The price fallback\<close>

lemma detectLocale_country:
  "country (detectLocale h) \<in> set supported_countries"
  by (simp add: detectLocale_def Let_def supported_countries_def)

lemma detectLocale_currency:
  "currency (detectLocale h) = (if country (detectLocale h) = ''CH'' then ''CHF'' else ''EUR'')"
  by (simp add: detectLocale_def Let_def)

lemma detectLocale_prices:
  "defaultPrices (country (detectLocale h)) = Some (prices (detectLocale h))"
  by (simp add: detectLocale_def Let_def defaultPrices_def)

lemma defaultPrices_in_range:
  assumes "defaultPrices c = Some pr"
  shows "clamp (diesel pr) (fst LIMITS_price) (snd LIMITS_price) = diesel pr"
    and "diesel pr \<noteq> Num 0" and "diesel pr \<noteq> NaN"
  using assms
  by (auto simp add: defaultPrices_def defaultPrices_CH_def LIMITS_defs clamp_Num split: if_splits)

text \<open>
  C5, as stated, fails: on an unparseable price the bundle's \<open>calculateDiesel\<close> uses
  1.95 whatever the country; for the host tecblu.it the country is IT, whose default
  diesel price is 1.80.
\<close>

theorem fixed_price_counterexample:
  "d_price (calculateDiesel initial_state (example1_fields\<lparr>diesel_price := NaN\<rparr>)) = Num 1.95
   \<and> country (detectLocale ''tecblu.it'') = ''IT''
   \<and> defaultPrices ''IT'' = Some \<lparr>diesel = Num 1.80, heating = Num 1.20\<rparr>"
  by code_simp

text \<open>
  The constructor takes the default prices from the host name even when the country is
  overridden.
\<close>

lemma country_override_keeps_prices:
  "this_country (TecCalculator (no_options\<lparr>opt_country := Some ''IT''\<rparr>) no_dataset ''tecblu.ch'') = ''IT''
   \<and> d_price (calcDiesel (TecCalculator (no_options\<lparr>opt_country := Some ''IT''\<rparr>) no_dataset ''tecblu.ch'')
        (example1_fields\<lparr>diesel_price := NaN\<rparr>)) = Num 1.95"
  by code_simp

text \<open>
  C5, amended. In a \<open>TecCalculator\<close> built without a country and without a prices
  override, an unparseable price is replaced in \<open>calcDiesel\<close> by the default diesel
  price of the resolved country; that price lies within the bounds, so clamping leaves
  it as it is, and it is neither zero nor \<open>NaN\<close>. The bundle's \<open>calculateDiesel\<close> uses
  the constant 1.95.
\<close>

theorem price_fallback:
  assumes "opt_country opts = None" "data_country ds = None" "opt_prices opts = None"
    and "this = TecCalculator opts ds host"
    and "used = d_price (calcDiesel this (f\<lparr>diesel_price := NaN\<rparr>))"
  shows "defaultPrices (this_country this) = Some (this_defaultPrices this)
       \<and> used = clamp (diesel (this_defaultPrices this)) (fst LIMITS_price) (snd LIMITS_price)
       \<and> used = diesel (this_defaultPrices this)
       \<and> used \<noteq> Num 0 \<and> used \<noteq> NaN
       \<and> d_price (calculateDiesel st (f\<lparr>diesel_price := NaN\<rparr>)) = Num 1.95"
proof -
  let ?pr = "prices (detectLocale host)"
  have c: "this_country this = country (detectLocale host)"
    using assms(1,2) by (simp add: assms(4) TecCalculator_def Let_def first_of_def)
  have p: "this_defaultPrices this = ?pr"
    using assms(3) by (simp add: assms(4) TecCalculator_def Let_def)
  have s: "defaultPrices (this_country this) = Some (this_defaultPrices this)"
    unfolding c p by (rule detectLocale_prices)
  have u: "used = clamp (diesel (this_defaultPrices this)) (fst LIMITS_price) (snd LIMITS_price)"
    by (simp add: assms(5) calcDiesel_def Let_def d_inputs or_else_def)
  have w: "d_price (calculateDiesel st (f\<lparr>diesel_price := NaN\<rparr>)) = Num 1.95"
    by (simp add: calculateDiesel_def Let_def d_inputs or_else_def LIMITS_defs clamp_Num)
  from s u w defaultPrices_in_range [OF s] show ?thesis by simp
qed

lemma TecCalculator_tecblu_at:
  "TecCalculator no_options no_dataset ''tecblu.at'' =
     \<lparr>this_lang = ''de'', this_country = ''AT'', this_currency = ''EUR'',
      this_defaultPrices = \<lparr>diesel = Num 1.55, heating = Num 1.10\<rparr>,
      this_tab = Diesel, this_vehicles = Num 5\<rparr>"
  by code_simp

theorem price_fallback_witness:
  "opt_country no_options = None \<and> data_country no_dataset = None \<and> opt_prices no_options = None
   \<and> defaultPrices ''AT'' = Some \<lparr>diesel = Num 1.55, heating = Num 1.10\<rparr>
   \<and> d_price (calcDiesel (TecCalculator no_options no_dataset ''tecblu.at'')
      (example1_fields\<lparr>diesel_price := NaN\<rparr>)) = Num 1.55"
proof -
  have a: "opt_country no_options = None" "data_country no_dataset = None"
    "opt_prices no_options = None"
    by (simp_all add: no_options_def no_dataset_def)
  from price_fallback [OF a refl refl, where host = "''tecblu.at''" and f = example1_fields
      and st = initial_state]
  have "d_price (calcDiesel (TecCalculator no_options no_dataset ''tecblu.at'')
          (example1_fields\<lparr>diesel_price := NaN\<rparr>))
        = diesel (this_defaultPrices (TecCalculator no_options no_dataset ''tecblu.at''))"
    by blast
  then show ?thesis
    using a by (simp add: TecCalculator_tecblu_at defaultPrices_def)
qed

section \<open>Currency conventions\<close>

lemma intl_format_1234:
  "intl_format apostrophe ''de-CH'' 0 (Num 1234) = ''1'234''"
  by (simp add: intl_format_def apostrophe_def grouped_def decimal.simps digit_char_def Let_def)

lemma TecCalculator_tecblu_de:
  "TecCalculator no_options no_dataset ''tecblu.de'' =
     \<lparr>this_lang = ''de'', this_country = ''DE'', this_currency = ''EUR'',
      this_defaultPrices = \<lparr>diesel = Num 1.65, heating = Num 1.05\<rparr>,
      this_tab = Diesel, this_vehicles = Num 5\<rparr>"
  by code_simp

text \<open>
  C6, as stated, fails: for the host tecblu.de the currency is EUR, and \<open>fmtCurrency\<close>
  puts the euro sign before the amount; the text ends with the last digit.
\<close>

theorem euro_counterexample:
  "this_country (TecCalculator no_options no_dataset ''tecblu.de'') = ''DE''
   \<and> this_currency (TecCalculator no_options no_dataset ''tecblu.de'') = ''EUR''
   \<and> fmtCurrency (intl_format apostrophe) (TecCalculator no_options no_dataset ''tecblu.de'') (Num 1234)
       = euro_sign @ '' 1'234''
   \<and> last (fmtCurrency (intl_format apostrophe) (TecCalculator no_options no_dataset ''tecblu.de'')
        (Num 1234)) = CHR ''4''"
  by (simp add: TecCalculator_tecblu_de fmtCurrency_def fmtNum_def MAX_OUT_def Let_def
        intl_format_1234 euro_sign_def)

text \<open>
  C6, amended. \<open>detectLocale\<close> returns one of the five countries, with CHF exactly for
  CH and EUR otherwise. \<open>TecCalculator.fmtCurrency\<close> writes "CHF", the amount and the
  marker ".\<endash>" when the currency is CHF, and otherwise the euro sign, a space and the
  amount. The bundle's \<open>calculateDiesel\<close> and \<open>calculateHeating\<close> pass CHF for every
  amount. \<open>formatCurrency\<close> of the later localization module puts the euro sign after
  the amount.
\<close>

theorem currency_conventions:
  "currency (detectLocale host) = (if country (detectLocale host) = ''CH'' then ''CHF'' else ''EUR'')
   \<and> country (detectLocale host) \<in> set supported_countries
   \<and> (this_currency this = ''CHF'' \<longrightarrow>
        fmtCurrency nf this n
          = ''CHF '' @ fmtNum nf this (Math_round (Math_min n MAX_OUT)) 0 @ ''.'' @ en_dash)
   \<and> (this_currency this \<noteq> ''CHF'' \<longrightarrow>
        fmtCurrency nf this n
          = euro_sign @ '' '' @ fmtNum nf this (Math_round (Math_min n MAX_OUT)) 0)
   \<and> (\<forall>t \<in> {primary_result, r_vehicle, r_invest, c_without, c_with, cta_val}.
        \<exists>amount. t (calculateDiesel_display nf st f) = ''CHF '' @ amount @ ''.'' @ en_dash)
   \<and> (\<forall>t \<in> {primary_result_h, rh_invest, ch_without, ch_with, cta_val_h}.
        \<exists>amount. t (calculateHeating_display nf st g) = ''CHF '' @ amount @ ''.'' @ en_dash)
   \<and> formatCurrency_localization nf n ''EUR'' la
        = nf ''de-DE'' 0 (Math_round (Math_min n (Num 999999999999))) @ '' '' @ euro_sign"
  by (simp add: detectLocale_currency detectLocale_country fmtCurrency_def Let_def
        calculateDiesel_display_def calculateHeating_display_def formatCurrency_def
        formatCurrency_localization_def)

lemma TecCalculator_tecblu_ch:
  "TecCalculator no_options no_dataset ''tecblu.ch'' =
     \<lparr>this_lang = ''de'', this_country = ''CH'', this_currency = ''CHF'',
      this_defaultPrices = \<lparr>diesel = Num 1.95, heating = Num 1.35\<rparr>,
      this_tab = Diesel, this_vehicles = Num 5\<rparr>"
  by code_simp

theorem currency_conventions_witness:
  "this_currency (TecCalculator no_options no_dataset ''tecblu.at'') \<noteq> ''CHF''
   \<and> fmtCurrency (intl_format apostrophe) (TecCalculator no_options no_dataset ''tecblu.at'') (Num 1234)
     = euro_sign @ '' 1'234''
   \<and> this_currency (TecCalculator no_options no_dataset ''tecblu.ch'') = ''CHF''
   \<and> fmtCurrency (intl_format apostrophe) (TecCalculator no_options no_dataset ''tecblu.ch'') (Num 1234)
     = ''CHF 1'234.'' @ en_dash
   \<and> primary_result \<in> {primary_result, r_vehicle, r_invest, c_without, c_with, cta_val}
   \<and> primary_result_h \<in> {primary_result_h, rh_invest, ch_without, ch_with, cta_val_h}"
proof -
  let ?at = "TecCalculator no_options no_dataset ''tecblu.at''"
  let ?ch = "TecCalculator no_options no_dataset ''tecblu.ch''"
  have a: "this_currency ?at \<noteq> ''CHF''" by (simp add: TecCalculator_tecblu_at)
  have c: "this_currency ?ch = ''CHF''" by (simp add: TecCalculator_tecblu_ch)
  from currency_conventions [of _ ?at "intl_format apostrophe" "Num 1234"] a
  have 1: "fmtCurrency (intl_format apostrophe) ?at (Num 1234)
      = euro_sign @ '' '' @ fmtNum (intl_format apostrophe) ?at (Math_round (Math_min (Num 1234) MAX_OUT)) 0"
    by blast
  from currency_conventions [of _ ?ch "intl_format apostrophe" "Num 1234"] c
  have 2: "fmtCurrency (intl_format apostrophe) ?ch (Num 1234)
      = ''CHF '' @ fmtNum (intl_format apostrophe) ?ch (Math_round (Math_min (Num 1234) MAX_OUT)) 0
          @ ''.'' @ en_dash"
    by blast
  show ?thesis
    unfolding 1 2
    by (simp add: TecCalculator_tecblu_at TecCalculator_tecblu_ch fmtNum_def MAX_OUT_def
          intl_format_1234)
qed

section \<open>Looking up a translation\<close>












lemma sample_lookup_found:
  "getNestedValue own_only sample_translations ''header.title'' = Inr (Str ''Savings Calculator'')"
  by (simp add: getNestedValue_def sample_translations_def reducer_def)

lemma sample_translated:
  "translate_element own_only sample_translations (sample_element\<lparr>data_i18n := ''header.title''\<rparr>)
     = Inr (sample_element\<lparr>data_i18n := ''header.title'',
              childNodes := [TextNode ''Savings Calculator'']\<rparr>)"
  by (simp add: translate_element_def sample_lookup_found sample_element_def set_textContent_def)


end
